theory Spec2Isabelle
  imports Complex_Main
begin

section \<open>Python values, records and errors\<close>

text \<open>
  The program is \<^verbatim>\<open>src/prediction_model/pipeline/preprocessing.py\<close>: a chain of
  per-row transforms over dictionaries. A Python float is an IEEE binary64 value: a
  signed finite value (kept as the exact rational it denotes), a signed infinity, or a
  NaN. The values a row can hold are \<^verbatim>\<open>None\<close>, strings, ints and floats; a row
  (the parameter \<^verbatim>\<open>element\<close> of every stage) is a dictionary from column names
  to values. Strings are lists of code points below 256.
\<close>

datatype pyfloat = Finite bool rat | Infinity bool | NaN

datatype pyval = VNone | VStr string | VInt int | VFloat pyfloat

type_synonym element = "string \<rightharpoonup> pyval"

text \<open>
  Every exception the code can raise is a value. \<open>ValueError\<close> carries its message for
  the two \<^verbatim>\<open>raise\<close> statements of the source; the message of a failed
  \<^verbatim>\<open>float()\<close> is kept without the quoted operand.
\<close>

datatype pyerror =
    KeyError string
  | AttributeError string
  | TypeError
  | OverflowError
  | ValueError string

text \<open>\<^verbatim>\<open>math.isnan\<close> on a float, and the test
  \<^verbatim>\<open>isinstance(v, float) and math.isnan(v)\<close> on any value.\<close>

fun isnan :: "pyfloat \<Rightarrow> bool" where
  "isnan NaN = True"
| "isnan _ = False"

fun is_float_nan :: "pyval \<Rightarrow> bool" where
  "is_float_nan (VFloat x) = isnan x"
| "is_float_nan _ = False"

fun isfinite :: "pyfloat \<Rightarrow> bool" where
  "isfinite (Finite _ _) = True"
| "isfinite _ = False"

text \<open>\<^verbatim>\<open>d.get(key)\<close>: the value, or \<^verbatim>\<open>None\<close> when the key is absent.\<close>

definition dict_get :: "element \<Rightarrow> string \<Rightarrow> pyval" where
  "dict_get d k = (case d k of None \<Rightarrow> VNone | Some v \<Rightarrow> v)"

text \<open>\<^verbatim>\<open>d.get(key, default)\<close>.\<close>

definition dict_get_default :: "element \<Rightarrow> string \<Rightarrow> pyval \<Rightarrow> pyval" where
  "dict_get_default d k dflt = (case d k of None \<Rightarrow> dflt | Some v \<Rightarrow> v)"

text \<open>\<^verbatim>\<open>d[key]\<close>: raises \<^verbatim>\<open>KeyError\<close> when the key is absent.\<close>

definition dict_item :: "element \<Rightarrow> string \<Rightarrow> pyerror + pyval" where
  "dict_item d k = (case d k of None \<Rightarrow> Inl (KeyError k) | Some v \<Rightarrow> Inr v)"

section \<open>Contract validation and one-hot encoding\<close>

text \<open>
  \<^verbatim>\<open>FilterInvalidContract.process\<close>: membership of the value in a set of three
  strings. A value that is not a string (also \<^verbatim>\<open>None\<close>, which
  \<^verbatim>\<open>element.get\<close> returns for an absent key) equals none of them. A generator
  that yields nothing is the empty list of outputs.
\<close>

definition valid_contracts :: "string list" where
  "valid_contracts = [''One year'', ''Two year'', ''Month-to-month'']"

fun py_in :: "pyval \<Rightarrow> string list \<Rightarrow> bool" where
  "py_in (VStr s) xs = (s \<in> set xs)"
| "py_in _ xs = False"

definition FilterInvalidContract_process :: "element \<Rightarrow> pyerror + element list" where
  "FilterInvalidContract_process element =
     (let contract_value = dict_get element ''Contract'' in
      if \<not> py_in contract_value valid_contracts then Inr []
      else Inr [element])"

text \<open>
  \<^verbatim>\<open>OHEContract\<close>: \<^verbatim>\<open>self.contract_mapping\<close> is a dictionary of
  dictionaries, keyed by strings; \<^verbatim>\<open>element.update\<close> overwrites or adds the three
  indicator keys and \<^verbatim>\<open>element.pop('Contract', None)\<close> removes the key.
\<close>

definition indicators :: "int \<Rightarrow> int \<Rightarrow> int \<Rightarrow> (string \<times> pyval) list" where
  "indicators a b c =
     [(''One year'', VInt a), (''Two year'', VInt b), (''Month-to-month'', VInt c)]"

definition contract_mapping :: "(string \<times> (string \<times> pyval) list) list" where
  "contract_mapping =
     [(''One year'', indicators 1 0 0),
      (''Two year'', indicators 0 1 0),
      (''Month-to-month'', indicators 0 0 1)]"

fun mapping_get :: "(string \<times> 'a) list \<Rightarrow> pyval \<Rightarrow> 'a \<Rightarrow> 'a" where
  "mapping_get m (VStr k) dflt = (case map_of m k of None \<Rightarrow> dflt | Some v \<Rightarrow> v)"
| "mapping_get m _ dflt = dflt"

definition dict_update :: "element \<Rightarrow> (string \<times> pyval) list \<Rightarrow> element" where
  "dict_update d kvs = d ++ map_of kvs"

definition OHEContract_process :: "element \<Rightarrow> pyerror + element list" where
  "OHEContract_process element =
     (case dict_item element ''Contract'' of
        Inl e \<Rightarrow> Inl e
      | Inr c \<Rightarrow>
          Inr [(dict_update element (mapping_get contract_mapping c (indicators 0 0 0)))
                 (''Contract'' := None)])"

section \<open>Strings\<close>

text \<open>
  The string methods the code calls. \<^verbatim>\<open>str.isspace\<close> on code points below 256
  holds for tab to carriage return, the four separators 28 to 31, the space, and the
  code points 133 and 160.
\<close>

definition py_isspace :: "char \<Rightarrow> bool" where
  "py_isspace c =
     (let n = (of_char c :: nat) in
      (9 \<le> n \<and> n \<le> 13) \<or> (28 \<le> n \<and> n \<le> 32) \<or> n = 133 \<or> n = 160)"

definition py_strip :: "string \<Rightarrow> string" where
  "py_strip s = rev (dropWhile py_isspace (rev (dropWhile py_isspace s)))"

text \<open>\<^verbatim>\<open>s.split(sep)\<close> for a separator of one character: never empty.\<close>

fun py_split :: "char \<Rightarrow> string \<Rightarrow> string list" where
  "py_split sep [] = [[]]"
| "py_split sep (c # cs) =
     (if c = sep then [] # py_split sep cs
      else (case py_split sep cs of
              [] \<Rightarrow> [[c]]
            | w # ws \<Rightarrow> (c # w) # ws))"

text \<open>\<^verbatim>\<open>sep.join(xs)\<close>.\<close>

fun py_join :: "string \<Rightarrow> string list \<Rightarrow> string" where
  "py_join sep [] = []"
| "py_join sep [x] = x"
| "py_join sep (x # y # ys) = x @ sep @ py_join sep (y # ys)"

text \<open>\<^verbatim>\<open>s.replace(old, new)\<close> for \<^verbatim>\<open>old\<close> of one character.\<close>

definition py_replace :: "char \<Rightarrow> string \<Rightarrow> string \<Rightarrow> string" where
  "py_replace old new s = concat (map (\<lambda>c. if c = old then new else [c]) s)"

text \<open>\<^verbatim>\<open>s.lower()\<close>: below 256 the upper-case letters are A to Z and the
  Latin-1 capitals 192 to 222 without the multiplication sign 215.\<close>

definition lower_char :: "char \<Rightarrow> char" where
  "lower_char c =
     (let n = (of_char c :: nat) in
      if (65 \<le> n \<and> n \<le> 90) \<or> (192 \<le> n \<and> n \<le> 222 \<and> n \<noteq> 215)
      then char_of (n + 32) else c)"

definition py_lower :: "string \<Rightarrow> string" where
  "py_lower s = map lower_char s"

text \<open>
  Method calls on a value: only a string has \<^verbatim>\<open>replace\<close> and
  \<^verbatim>\<open>lower\<close>; on an int, a float or \<^verbatim>\<open>None\<close> the attribute lookup
  raises \<^verbatim>\<open>AttributeError\<close>.
\<close>

fun val_replace :: "pyval \<Rightarrow> char \<Rightarrow> string \<Rightarrow> pyerror + string" where
  "val_replace (VStr s) old new = Inr (py_replace old new s)"
| "val_replace _ old new = Inl (AttributeError ''replace'')"

fun val_lower :: "pyval \<Rightarrow> pyerror + string" where
  "val_lower (VStr s) = Inr (py_lower s)"
| "val_lower _ = Inl (AttributeError ''lower'')"

section \<open>The builtin float()\<close>

text \<open>
  Rounding of a non-negative rational to binary64, to nearest with ties to even: 53
  significant bits, the exponent of the last bit at least \<open>-1074\<close>, overflow to infinity
  from \<open>2 ^ 1024\<close> on.
\<close>

definition pow2 :: "int \<Rightarrow> rat" where
  "pow2 k = (if 0 \<le> k then 2 ^ nat k else 1 / 2 ^ nat (- k))"

definition pow10 :: "int \<Rightarrow> rat" where
  "pow10 k = (if 0 \<le> k then 10 ^ nat k else 1 / 10 ^ nat (- k))"

function bit_length :: "int \<Rightarrow> int" where
  "bit_length n = (if n \<le> 0 then 0 else 1 + bit_length (n div 2))"
  by pat_completeness auto
termination
  by (relation "measure nat") auto

definition floor_log2 :: "rat \<Rightarrow> int" where
  "floor_log2 q =
     (let (a, b) = quotient_of q;
          d = bit_length a - bit_length b
      in if pow2 d \<le> q then d else d - 1)"

definition round_half_even :: "rat \<Rightarrow> int" where
  "round_half_even x =
     (let f = \<lfloor>x\<rfloor>; r = x - of_int f in
      if r < 1 / 2 then f
      else if 1 / 2 < r then f + 1
      else if even f then f else f + 1)"

definition round_binary64 :: "bool \<Rightarrow> rat \<Rightarrow> pyfloat" where
  "round_binary64 neg q =
     (if q = 0 then Finite neg 0
      else
        let p = max (floor_log2 q - 52) (- 1074);
            v = of_int (round_half_even (q / pow2 p)) * pow2 p
        in if pow2 1024 \<le> v then Infinity neg else Finite neg v)"

text \<open>
  \<^verbatim>\<open>float(s)\<close> on a string: surrounding whitespace is stripped (here the
  separators 28 to 31 do not count as whitespace); an underscore is accepted only
  between two digits; then an optional sign and either one of the words inf, infinity,
  nan in any letter case, or a decimal numeral (digits, an optional point, an optional
  exponent) with at least one digit, covering the whole string. \<open>None\<close> is
  \<^verbatim>\<open>ValueError\<close>.
\<close>

definition float_isspace :: "char \<Rightarrow> bool" where
  "float_isspace c =
     (let n = (of_char c :: nat) in (9 \<le> n \<and> n \<le> 13) \<or> n = 32 \<or> n = 133 \<or> n = 160)"

definition is_digit :: "char \<Rightarrow> bool" where
  "is_digit c = (let n = (of_char c :: nat) in 48 \<le> n \<and> n \<le> 57)"

definition digits_val :: "string \<Rightarrow> int" where
  "digits_val ds = foldl (\<lambda>a c. 10 * a + (of_char c - 48)) 0 ds"

fun underscores_ok :: "char option \<Rightarrow> string \<Rightarrow> bool" where
  "underscores_ok prev [] = True"
| "underscores_ok prev (c # cs) =
     (if c = CHR ''_''
      then (case prev of None \<Rightarrow> False | Some p \<Rightarrow> is_digit p)
           \<and> (case cs of [] \<Rightarrow> False | d # _ \<Rightarrow> is_digit d)
           \<and> underscores_ok (Some c) cs
      else underscores_ok (Some c) cs)"

definition parse_sign :: "string \<Rightarrow> bool \<times> string" where
  "parse_sign s =
     (case s of
        [] \<Rightarrow> (False, s)
      | c # cs \<Rightarrow>
          if c = CHR ''-'' then (True, cs)
          else if c = CHR ''+'' then (False, cs)
          else (False, s))"

definition parse_exponent :: "string \<Rightarrow> int option" where
  "parse_exponent r =
     (case r of
        [] \<Rightarrow> Some 0
      | c # t \<Rightarrow>
          if c = CHR ''e'' \<or> c = CHR ''E'' then
            (let (neg, ds) = parse_sign t in
             if ds \<noteq> [] \<and> list_all is_digit ds
             then Some (if neg then - digits_val ds else digits_val ds)
             else None)
          else None)"

definition parse_decimal :: "string \<Rightarrow> rat option" where
  "parse_decimal s =
     (let ip = takeWhile is_digit s;
          r1 = dropWhile is_digit s;
          point = (r1 \<noteq> [] \<and> hd r1 = CHR ''.'');
          fp = (if point then takeWhile is_digit (tl r1) else []);
          r2 = (if point then dropWhile is_digit (tl r1) else r1)
      in if ip = [] \<and> fp = [] then None
         else (case parse_exponent r2 of
                 None \<Rightarrow> None
               | Some ex \<Rightarrow>
                   Some (of_int (digits_val (ip @ fp)) * pow10 (ex - int (length fp)))))"

definition float_of_string :: "string \<Rightarrow> pyfloat option" where
  "float_of_string s0 =
     (let s = rev (dropWhile float_isspace (rev (dropWhile float_isspace s0))) in
      if \<not> underscores_ok None s then None
      else
        let (neg, body) = parse_sign (filter (\<lambda>c. c \<noteq> CHR ''_'') s) in
        if py_lower body = ''inf'' \<or> py_lower body = ''infinity'' then Some (Infinity neg)
        else if py_lower body = ''nan'' then Some NaN
        else (case parse_decimal body of
                None \<Rightarrow> None
              | Some q \<Rightarrow> Some (round_binary64 neg q)))"

text \<open>
  \<^verbatim>\<open>float(v)\<close> on any value: a float is returned as it is, an int is rounded
  (\<^verbatim>\<open>OverflowError\<close> beyond the range), a string is parsed, \<^verbatim>\<open>None\<close> is a
  \<^verbatim>\<open>TypeError\<close>.
\<close>

fun py_float :: "pyval \<Rightarrow> pyerror + pyfloat" where
  "py_float (VFloat x) = Inr x"
| "py_float (VInt n) =
     (case round_binary64 (n < 0) (of_int \<bar>n\<bar>) of
        Infinity _ \<Rightarrow> Inl OverflowError
      | x \<Rightarrow> Inr x)"
| "py_float (VStr s) =
     (case float_of_string s of
        None \<Rightarrow> Inl (ValueError ''could not convert string to float'')
      | Some x \<Rightarrow> Inr x)"
| "py_float VNone = Inl TypeError"

section \<open>Configuration\<close>

text \<open>
  The module \<^verbatim>\<open>prediction_model.config\<close> is imported by the source and is not
  part of it: its constants are the fields of a parameter. The reference dataset read
  by \<^verbatim>\<open>FillTenureWithMean.__init__\<close> is outside the source as well, so the
  attribute \<^verbatim>\<open>tenure_mean\<close> is a parameter too.
\<close>

record config =
  FEATURES :: "string list"
  FEATURES_AFTER_CONTRACT :: "string list"
  COLUMN_NAMES :: "string list"
  LEADING_COLUMN :: string
  FEATURE_TO_MODIFY :: string

section \<open>The imputation and encoding stages\<close>

text \<open>
  \<^verbatim>\<open>FillTotalCharges\<close> is constructed without arguments, so
  \<^verbatim>\<open>self.default_value\<close> is the float 2279.0 and
  \<^verbatim>\<open>str(self.default_value)\<close> is the string 2279.0. The
  \<^verbatim>\<open>try\<close> catches \<^verbatim>\<open>ValueError\<close> only; the call of
  \<^verbatim>\<open>replace\<close> stands before it.
\<close>

definition default_value :: pyfloat where
  "default_value = Finite False 2279"

definition str_default_value :: string where
  "str_default_value = ''2279.0''"

definition FillTotalCharges_process :: "config \<Rightarrow> element \<Rightarrow> pyerror + element list" where
  "FillTotalCharges_process cfg element =
     (let total_charges = dict_get_default element (FEATURE_TO_MODIFY cfg) (VStr str_default_value);
          total_charges =
            (if total_charges = VNone \<or> total_charges = VStr [] \<or> is_float_nan total_charges
             then VStr str_default_value else total_charges)
      in case val_replace total_charges CHR 0x20 str_default_value of
           Inl e \<Rightarrow> Inl e
         | Inr replaced \<Rightarrow>
             (case py_float (VStr replaced) of
                Inr x \<Rightarrow> Inr [element(''TotalCharges'' \<mapsto> VFloat x)]
              | Inl (ValueError m) \<Rightarrow> Inr [element(''TotalCharges'' \<mapsto> VFloat default_value)]
              | Inl e \<Rightarrow> Inl e))"

definition FillPhoneService_process :: "element \<Rightarrow> pyerror + element list" where
  "FillPhoneService_process element =
     (let phone_service_value = dict_get element ''PhoneService'' in
      if phone_service_value = VNone \<or> is_float_nan phone_service_value
      then Inr [element(''PhoneService'' \<mapsto> VStr ''No'')]
      else Inr [element])"

definition FillTenureWithMean_process :: "pyfloat \<Rightarrow> element \<Rightarrow> pyerror + element list" where
  "FillTenureWithMean_process tenure_mean element =
     (let tenure_value = dict_get element ''tenure'' in
      if tenure_value = VNone \<or> is_float_nan tenure_value
      then Inr [element(''tenure'' \<mapsto> VFloat tenure_mean)]
      else if tenure_value = VStr []
      then Inr [element(''tenure'' \<mapsto> VFloat (Finite False 0))]
      else (case dict_item element ''tenure'' of
              Inl e \<Rightarrow> Inl e
            | Inr v \<Rightarrow>
                (case py_float v of
                   Inl e \<Rightarrow> Inl e
                 | Inr x \<Rightarrow> Inr [element(''tenure'' \<mapsto> VFloat x)])))"

definition MapPhoneService_process :: "element \<Rightarrow> pyerror + element list" where
  "MapPhoneService_process element =
     (case dict_item element ''PhoneService'' of
        Inl e \<Rightarrow> Inl e
      | Inr v \<Rightarrow>
          (case val_lower v of
             Inl e \<Rightarrow> Inl e
           | Inr s \<Rightarrow> Inr [element(''PhoneService'' \<mapsto> VInt (if s = ''yes'' then 1 else 0))]))"

text \<open>
  \<^verbatim>\<open>HandleContract\<close>: \<^verbatim>\<open>pd.isna\<close> of a scalar (a string, a number or
  \<^verbatim>\<open>None\<close>) is a plain Python \<^verbatim>\<open>bool\<close>, and a \<^verbatim>\<open>bool\<close> has no
  method \<^verbatim>\<open>any\<close>: the call raises \<^verbatim>\<open>AttributeError\<close> before the
  condition has a value. Every value of a row is a scalar.
\<close>

fun pd_isna :: "pyval \<Rightarrow> bool" where
  "pd_isna VNone = True"
| "pd_isna (VFloat x) = isnan x"
| "pd_isna _ = False"

definition bool_any :: "bool \<Rightarrow> pyerror + bool" where
  "bool_any b = Inl (AttributeError ''any'')"

definition quoted :: "string \<Rightarrow> string" where
  "quoted s = CHR 0x27 # s @ [CHR 0x27]"

definition HandleContract_process :: "element \<Rightarrow> pyerror + element list" where
  "HandleContract_process element =
     (case dict_item element ''Contract'' of
        Inl e \<Rightarrow> Inl e
      | Inr v \<Rightarrow>
          (case bool_any (pd_isna v) of
             Inl e \<Rightarrow> Inl e
           | Inr b \<Rightarrow>
               if b
               then Inl (ValueError (''Null value found in '' @ quoted ''Contract'' @ '' feature''))
               else Inr [element]))"

section \<open>Feature filter, header lookup and serialisation\<close>

text \<open>
  \<^verbatim>\<open>filter_features\<close> is a dictionary comprehension over the configured list; it
  reads \<^verbatim>\<open>element[key]\<close> for each key in order, so the first absent key raises
  \<^verbatim>\<open>KeyError\<close>. A dictionary built from pairs keeps the last value of a key.
\<close>

definition dict_of_pairs :: "(string \<times> pyval) list \<Rightarrow> element" where
  "dict_of_pairs kvs = map_of (rev kvs)"

fun items_of :: "element \<Rightarrow> string list \<Rightarrow> pyerror + (string \<times> pyval) list" where
  "items_of element [] = Inr []"
| "items_of element (key # keys) =
     (case dict_item element key of
        Inl e \<Rightarrow> Inl e
      | Inr v \<Rightarrow>
          (case items_of element keys of
             Inl e \<Rightarrow> Inl e
           | Inr kvs \<Rightarrow> Inr ((key, v) # kvs)))"

definition filter_features :: "config \<Rightarrow> element \<Rightarrow> pyerror + element" where
  "filter_features cfg element =
     (case items_of element (FEATURES_AFTER_CONTRACT cfg) of
        Inl e \<Rightarrow> Inl e
      | Inr kvs \<Rightarrow> Inr (dict_of_pairs kvs))"

definition list_index :: "'a list \<Rightarrow> 'a \<Rightarrow> nat" where
  "list_index xs x = length (takeWhile (\<lambda>y. y \<noteq> x) xs)"

definition find_leading_column_index :: "string \<Rightarrow> string \<Rightarrow> pyerror + nat" where
  "find_leading_column_index header target_column =
     (let columns = py_split CHR '','' header in
      if target_column \<in> set columns then Inr (list_index columns target_column)
      else Inl (ValueError (quoted target_column @ '' column not found in the header.'')))"

text \<open>
  \<^verbatim>\<open>str(v)\<close>: the shortest-digits representation of a float is a primitive of the
  runtime and a parameter here.
\<close>

fun str_nat :: "nat \<Rightarrow> string" where
  "str_nat n = (if n < 10 then [char_of (48 + n)]
                else str_nat (n div 10) @ [char_of (48 + n mod 10)])"

fun py_str :: "(pyfloat \<Rightarrow> string) \<Rightarrow> pyval \<Rightarrow> string" where
  "py_str float_repr VNone = ''None''"
| "py_str float_repr (VStr s) = s"
| "py_str float_repr (VInt n) = (if n < 0 then CHR ''-'' # str_nat (nat (- n)) else str_nat (nat n))"
| "py_str float_repr (VFloat x) = float_repr x"

definition convert_dict_to_string :: "(pyfloat \<Rightarrow> string) \<Rightarrow> config \<Rightarrow> element \<Rightarrow> string" where
  "convert_dict_to_string float_repr cfg element =
     py_join '','' (map (\<lambda>col. py_str float_repr (dict_get_default element col (VStr []))) (FEATURES cfg))"

section \<open>Files\<close>

text \<open>
  A file is the string of its characters. Python's text mode turns every line ending
  into a line feed; iterating over the file gives the lines with their line feed. The
  text source of the dataflow library splits at line feeds itself and drops the line
  ending of each record (a line feed, with the carriage return before it if there is
  one).
\<close>

fun universal_newlines :: "string \<Rightarrow> string" where
  "universal_newlines [] = []"
| "universal_newlines [c] = (if c = CHR 0x0D then [CHR 0x0A] else [c])"
| "universal_newlines (c # d # cs) =
     (if c = CHR 0x0D
      then (if d = CHR 0x0A then CHR 0x0A # universal_newlines cs
            else CHR 0x0A # universal_newlines (d # cs))
      else c # universal_newlines (d # cs))"

fun readlines :: "string \<Rightarrow> string list" where
  "readlines [] = []"
| "readlines (c # cs) =
     (if c = CHR 0x0A then [c] # readlines cs
      else (case readlines cs of
              [] \<Rightarrow> [[c]]
            | l # ls \<Rightarrow> (c # l) # ls))"

definition open_read :: "string \<Rightarrow> string list" where
  "open_read content = readlines (universal_newlines content)"

text \<open>\<^verbatim>\<open>file.readline()\<close> at the start of the file: the first line, or the
  empty string at the end of the file.\<close>

definition readline :: "string list \<Rightarrow> string" where
  "readline ls = (case ls of [] \<Rightarrow> [] | l # _ \<Rightarrow> l)"

fun no_data_line :: "string list \<Rightarrow> bool" where
  "no_data_line [] = True"
| "no_data_line (line # ls) = (if py_strip line \<noteq> [] then False else no_data_line ls)"

definition is_csv_empty :: "string \<Rightarrow> bool" where
  "is_csv_empty content =
     (let file = open_read content;
          header = py_strip (readline file)
      in no_data_line (drop 1 file))"

definition strip_trailing_newline :: "string \<Rightarrow> string" where
  "strip_trailing_newline l =
     (if l \<noteq> [] \<and> last l = CHR 0x0A
      then (let b = butlast l in if b \<noteq> [] \<and> last b = CHR 0x0D then butlast b else b)
      else l)"

definition ReadFromText :: "string \<Rightarrow> nat \<Rightarrow> string list" where
  "ReadFromText content skip_header_lines =
     map strip_trailing_newline (drop skip_header_lines (readlines content))"

section \<open>The pipeline\<close>

text \<open>
  A \<^verbatim>\<open>ParDo\<close> applies a stage to every element and collects what the stage
  yields; an exception raised for one element fails the whole run. \<^verbatim>\<open>Map\<close> is
  the \<^verbatim>\<open>ParDo\<close> of a function with one result. The chain of
  \<^verbatim>\<open>run_pipeline\<close> is read from the text source (\<open>parsed_rows\<close>: the split
  into a dictionary and the feature filter), cleaned (\<open>cleaned_rows\<close>: the six
  stages from the contract filter to the PhoneService encoder; \<^verbatim>\<open>HandleContract\<close>
  is not among them) and serialised.
\<close>

fun ParDo :: "('a \<Rightarrow> pyerror + 'b list) \<Rightarrow> 'a list \<Rightarrow> pyerror + 'b list" where
  "ParDo f [] = Inr []"
| "ParDo f (x # xs) =
     (case f x of
        Inl e \<Rightarrow> Inl e
      | Inr ys \<Rightarrow>
          (case ParDo f xs of
             Inl e \<Rightarrow> Inl e
           | Inr zs \<Rightarrow> Inr (ys @ zs)))"

definition Map_fn :: "('a \<Rightarrow> pyerror + 'b) \<Rightarrow> 'a \<Rightarrow> pyerror + 'b list" where
  "Map_fn f x = (case f x of Inl e \<Rightarrow> Inl e | Inr y \<Rightarrow> Inr [y])"

definition apply_stage :: "pyerror + 'a list \<Rightarrow> ('a \<Rightarrow> pyerror + 'b list) \<Rightarrow> pyerror + 'b list" where
  "apply_stage pcoll f = (case pcoll of Inl e \<Rightarrow> Inl e | Inr xs \<Rightarrow> ParDo f xs)"

definition to_dict :: "config \<Rightarrow> nat \<Rightarrow> string \<Rightarrow> element" where
  "to_dict cfg customer_id_index x =
     dict_of_pairs (zip (COLUMN_NAMES cfg) (map VStr (drop customer_id_index (py_split CHR '','' x))))"

definition cleaned_rows :: "config \<Rightarrow> pyfloat \<Rightarrow> pyerror + element list \<Rightarrow> pyerror + element list" where
  "cleaned_rows cfg tenure_mean p3 =
     (let p4 = apply_stage p3 FilterInvalidContract_process;
          p5 = apply_stage p4 OHEContract_process;
          p6 = apply_stage p5 (FillTotalCharges_process cfg);
          p7 = apply_stage p6 FillPhoneService_process;
          p8 = apply_stage p7 (FillTenureWithMean_process tenure_mean)
      in apply_stage p8 MapPhoneService_process)"

definition parsed_rows :: "config \<Rightarrow> nat \<Rightarrow> string \<Rightarrow> pyerror + element list" where
  "parsed_rows cfg customer_id_index content =
     (let p1 = Inr (ReadFromText content 1);
          p2 = apply_stage p1 (Map_fn (\<lambda>x. Inr (to_dict cfg customer_id_index x)))
      in apply_stage p2 (Map_fn (filter_features cfg)))"

definition processed_data ::
  "(pyfloat \<Rightarrow> string) \<Rightarrow> config \<Rightarrow> pyfloat \<Rightarrow> nat \<Rightarrow> string \<Rightarrow> pyerror + string list" where
  "processed_data float_repr cfg tenure_mean customer_id_index content =
     (let p3 = parsed_rows cfg customer_id_index content;
          p9 = cleaned_rows cfg tenure_mean p3
      in apply_stage p9 (Map_fn (\<lambda>e. Inr (convert_dict_to_string float_repr cfg e))))"

text \<open>
  \<^verbatim>\<open>run_pipeline\<close>: what it prints, the lines of the output file if one is
  written, and whether it returns a boolean or raises. The output file holds the
  flattened collection of the header and the rows; the library fixes no order for it,
  and the list here has the header first and the rows in input order. A run that raises
  leaves no output file.
\<close>

record run_result =
  printed :: "string list"
  output_file :: "string list option"
  outcome :: "pyerror + bool"

definition run_pipeline ::
  "(pyfloat \<Rightarrow> string) \<Rightarrow> config \<Rightarrow> pyfloat \<Rightarrow> string \<Rightarrow> string \<Rightarrow> run_result" where
  "run_pipeline float_repr cfg tenure_mean input_file content =
     (if is_csv_empty content
      then \<lparr>printed = [input_file @ '' is empty or only contains a header.''],
            output_file = None, outcome = Inr False\<rparr>
      else
        let out = [input_file @ '' contains data.''];
            header = py_strip (readline (open_read content))
        in case find_leading_column_index header (LEADING_COLUMN cfg) of
             Inl e \<Rightarrow> \<lparr>printed = out, output_file = None, outcome = Inl e\<rparr>
           | Inr customer_id_index \<Rightarrow>
               (case processed_data float_repr cfg tenure_mean customer_id_index content of
                  Inl e \<Rightarrow> \<lparr>printed = out, output_file = None, outcome = Inl e\<rparr>
                | Inr rows \<Rightarrow>
                    \<lparr>printed = out,
                     output_file = Some (py_join '','' (FEATURES cfg) # rows),
                     outcome = Inr True\<rparr>))"

section \<open>An example configuration\<close>

text \<open>
  The closed instances below run the code on this configuration: an input file with an
  index column before the customer id, and four features kept for cleaning.
\<close>

definition example_config :: config where
  "example_config =
     \<lparr>FEATURES = [''tenure'', ''PhoneService'', ''TotalCharges'',
                   ''One year'', ''Two year'', ''Month-to-month''],
      FEATURES_AFTER_CONTRACT = [''tenure'', ''PhoneService'', ''Contract'', ''TotalCharges''],
      COLUMN_NAMES = [''customerID'', ''tenure'', ''PhoneService'', ''Contract'', ''TotalCharges''],
      LEADING_COLUMN = ''customerID'',
      FEATURE_TO_MODIFY = ''TotalCharges''\<rparr>"

text \<open>An input file with one data row whose tenure is not a number.\<close>

definition bad_tenure_file :: string where
  "bad_tenure_file =
     ''idx,customerID,tenure,PhoneService,Contract,TotalCharges\<newline>0,c1,abc,Yes,One year,10\<newline>''"

section \<open>Properties\<close>

subsection \<open>Contract encoder\<close>

text \<open>
  C1. For every record whose Contract value is one of One year, Two year,
  Month-to-month, the contract encoder yields exactly one record; in it the indicator
  named like the input value is 1, the other two indicators are 0, and the key Contract
  is absent. Every other key keeps its value.
\<close>

theorem OHEContract_one_hot:
  assumes "element ''Contract'' = Some (VStr c)" and "c \<in> set valid_contracts"
  shows "\<exists>out. OHEContract_process element = Inr [out]
           \<and> out ''One year'' = Some (VInt (if c = ''One year'' then 1 else 0))
           \<and> out ''Two year'' = Some (VInt (if c = ''Two year'' then 1 else 0))
           \<and> out ''Month-to-month'' = Some (VInt (if c = ''Month-to-month'' then 1 else 0))
           \<and> out ''Contract'' = None
           \<and> (\<forall>k. k \<notin> {''One year'', ''Two year'', ''Month-to-month'', ''Contract''}
                  \<longrightarrow> out k = element k)"
  using assms
  by (auto simp: OHEContract_process_def dict_item_def dict_update_def valid_contracts_def
      contract_mapping_def indicators_def)

theorem OHEContract_one_hot_witness:
  "\<exists>out. OHEContract_process [''Contract'' \<mapsto> VStr ''Two year'', ''tenure'' \<mapsto> VStr ''5''] = Inr [out]
      \<and> out ''One year'' = Some (VInt 0)
      \<and> out ''Two year'' = Some (VInt 1)
      \<and> out ''Month-to-month'' = Some (VInt 0)
      \<and> out ''Contract'' = None
      \<and> out ''tenure'' = Some (VStr ''5'')"
proof -
  let ?e = "[''Contract'' \<mapsto> VStr ''Two year'', ''tenure'' \<mapsto> VStr ''5'']"
  have h1: "?e ''Contract'' = Some (VStr ''Two year'')" by simp
  have h2: "''Two year'' \<in> set valid_contracts" by (simp add: valid_contracts_def)
  from OHEContract_one_hot [of ?e "''Two year''", OF h1 h2] obtain out where
    o: "OHEContract_process ?e = Inr [out]"
      "out ''One year'' = Some (VInt (if ''Two year'' = ''One year'' then 1 else 0))"
      "out ''Two year'' = Some (VInt (if ''Two year'' = ''Two year'' then 1 else 0))"
      "out ''Month-to-month'' = Some (VInt (if ''Two year'' = ''Month-to-month'' then 1 else 0))"
      "out ''Contract'' = None"
      "\<forall>k. k \<notin> {''One year'', ''Two year'', ''Month-to-month'', ''Contract''} \<longrightarrow> out k = ?e k"
    by blast
  have "out ''tenure'' = ?e ''tenure''" using o(6) by simp
  then have "out ''tenure'' = Some (VStr ''5'')" by simp
  with o show ?thesis by simp
qed

subsection \<open>Contract validator\<close>

lemma ParDo_FilterInvalidContract:
  "ParDo FilterInvalidContract_process xs =
     Inr (filter (\<lambda>e. py_in (dict_get e ''Contract'') valid_contracts) xs)"
  by (induction xs) (simp_all add: FilterInvalidContract_process_def)

lemma invalid_contract_not_in:
  assumes "\<forall>c \<in> set valid_contracts. element ''Contract'' \<noteq> Some (VStr c)"
  shows "\<not> py_in (dict_get element ''Contract'') valid_contracts"
proof (cases "element ''Contract''")
  case None
  then show ?thesis by (simp add: dict_get_def)
next
  case (Some v)
  with assms show ?thesis by (cases v) (auto simp: dict_get_def)
qed

text \<open>
  C2. For every record whose Contract value is not one of the three valid strings (the
  key absent and the value None included), the contract validator yields nothing and
  raises nothing; the cleaning chain gives no output for the record alone, and in a
  batch the result is the one of the batch without the record.
\<close>

theorem FilterInvalidContract_drops:
  assumes "\<forall>c \<in> set valid_contracts. element ''Contract'' \<noteq> Some (VStr c)"
  shows "FilterInvalidContract_process element = Inr []
       \<and> cleaned_rows cfg tenure_mean (Inr [element]) = Inr []
       \<and> cleaned_rows cfg tenure_mean (Inr (xs @ element # ys)) =
           cleaned_rows cfg tenure_mean (Inr (xs @ ys))"
proof -
  have n: "\<not> py_in (dict_get element ''Contract'') valid_contracts"
    using assms by (rule invalid_contract_not_in)
  have a: "FilterInvalidContract_process element = Inr []"
    using n by (simp add: FilterInvalidContract_process_def)
  have b: "apply_stage (Inr (xs @ element # ys)) FilterInvalidContract_process =
           apply_stage (Inr (xs @ ys)) FilterInvalidContract_process"
    using n by (simp add: apply_stage_def ParDo_FilterInvalidContract)
  have c: "apply_stage (Inr [element]) FilterInvalidContract_process = Inr []"
    using a by (simp add: apply_stage_def)
  have d: "cleaned_rows cfg tenure_mean (Inr [element]) = Inr []"
    unfolding cleaned_rows_def Let_def c by (simp add: apply_stage_def)
  have e: "cleaned_rows cfg tenure_mean (Inr (xs @ element # ys)) =
           cleaned_rows cfg tenure_mean (Inr (xs @ ys))"
    unfolding cleaned_rows_def Let_def b ..
  from a d e show ?thesis by blast
qed

theorem FilterInvalidContract_drops_witness:
  "FilterInvalidContract_process [''Contract'' \<mapsto> VStr ''Three year''] = Inr []
   \<and> FilterInvalidContract_process [''Contract'' \<mapsto> VNone] = Inr []
   \<and> FilterInvalidContract_process [''tenure'' \<mapsto> VStr ''1''] = Inr []
   \<and> cleaned_rows example_config (Finite False 32) (Inr [[''Contract'' \<mapsto> VStr ''Three year'']]) = Inr []"
proof -
  let ?a = "[''Contract'' \<mapsto> VStr ''Three year'']"
  let ?b = "[''Contract'' \<mapsto> VNone]"
  let ?c = "[''tenure'' \<mapsto> VStr ''1'']"
  have h1: "\<forall>c \<in> set valid_contracts. ?a ''Contract'' \<noteq> Some (VStr c)"
    by (simp add: valid_contracts_def)
  have h2: "\<forall>c \<in> set valid_contracts. ?b ''Contract'' \<noteq> Some (VStr c)"
    by (simp add: valid_contracts_def)
  have h3: "\<forall>c \<in> set valid_contracts. ?c ''Contract'' \<noteq> Some (VStr c)"
    by (simp add: valid_contracts_def)
  show ?thesis
    using FilterInvalidContract_drops [where element = ?a, OF h1, of example_config "Finite False 32" "[]" "[]"]
      FilterInvalidContract_drops [where element = ?b, OF h2, of example_config "Finite False 32" "[]" "[]"]
      FilterInvalidContract_drops [where element = ?c, OF h3, of example_config "Finite False 32" "[]" "[]"]
    by simp
qed

subsection \<open>TotalCharges imputer\<close>

lemma float_of_default_string: "float_of_string ''2279.0'' = Some (Finite False 2279)"
  by code_simp

lemma float_of_12279: 
  "float_of_string ''12279.0234'' = Some (Finite False (6750464503016797 / 549755813888))"
  by code_simp

lemma FillTotalCharges_default:
  assumes "element (FEATURE_TO_MODIFY cfg) \<in> {None, Some VNone, Some (VStr []), Some (VFloat NaN)}"
  shows "FillTotalCharges_process cfg element =
           Inr [element(''TotalCharges'' \<mapsto> VFloat (Finite False 2279))]"
proof -
  have r: "py_replace CHR 0x20 ''2279.0'' ''2279.0'' = ''2279.0''"
    by (simp add: py_replace_def)
  from assms show ?thesis
    by (auto simp: FillTotalCharges_process_def dict_get_default_def str_default_value_def
        default_value_def r float_of_default_string)
qed

lemma FillTotalCharges_string:
  assumes "element (FEATURE_TO_MODIFY cfg) = Some (VStr s)" and "s \<noteq> []"
  shows "FillTotalCharges_process cfg element =
           Inr [element(''TotalCharges'' \<mapsto> VFloat
             (case float_of_string (py_replace CHR 0x20 ''2279.0'' s) of
                None \<Rightarrow> Finite False 2279 | Some x \<Rightarrow> x))]"
  using assms
  by (simp add: FillTotalCharges_process_def dict_get_default_def str_default_value_def
      default_value_def split: option.splits)

lemma FillTotalCharges_not_a_string:
  assumes "element (FEATURE_TO_MODIFY cfg) = Some v"
    and "v = VInt n \<or> (v = VFloat x \<and> x \<noteq> NaN)"
  shows "FillTotalCharges_process cfg element = Inl (AttributeError ''replace'')"
  using assms
  by (cases x) (auto simp: FillTotalCharges_process_def dict_get_default_def)

theorem FillTotalCharges_not_a_string_witness:
  "FillTotalCharges_process example_config [''TotalCharges'' \<mapsto> VFloat (Finite False 100)] =
     Inl (AttributeError ''replace'')
   \<and> FillTotalCharges_process example_config [''TotalCharges'' \<mapsto> VInt 100] =
     Inl (AttributeError ''replace'')"
proof -
  have k: "FEATURE_TO_MODIFY example_config = ''TotalCharges''"
    by (simp add: example_config_def)
  have a: "FillTotalCharges_process example_config [''TotalCharges'' \<mapsto> VFloat (Finite False 100)] =
     Inl (AttributeError ''replace'')"
    by (rule FillTotalCharges_not_a_string
        [where v = "VFloat (Finite False 100)" and x = "Finite False 100" and n = 0])
      (simp_all add: k)
  have b: "FillTotalCharges_process example_config [''TotalCharges'' \<mapsto> VInt 100] =
     Inl (AttributeError ''replace'')"
    by (rule FillTotalCharges_not_a_string [where v = "VInt 100" and x = NaN and n = 100])
      (simp_all add: k)
  from a b show ?thesis by simp
qed

text \<open>
  C3, as amended. For every record whose value under the configured key (TotalCharges)
  is absent, None, a string or a float NaN, the TotalCharges imputer raises nothing and
  yields the record with TotalCharges set to a float: 2279.0 when the value is absent,
  None, the empty string or NaN; otherwise the float parsed from the string in which
  every space is replaced by the text 2279.0, or 2279.0 when that does not parse. The
  input 1 234 becomes the text 12279.0234 and yields the binary64 value nearest to
  12279.0234. The float is whatever the text parses to, so it need not be finite.
\<close>

theorem FillTotalCharges_imputes:
  "(element (FEATURE_TO_MODIFY cfg) \<in> {None, Some VNone, Some (VStr []), Some (VFloat NaN)} \<longrightarrow>
      FillTotalCharges_process cfg element =
        Inr [element(''TotalCharges'' \<mapsto> VFloat (Finite False 2279))])
   \<and> (element (FEATURE_TO_MODIFY cfg) = Some (VStr s) \<and> s \<noteq> [] \<longrightarrow>
      FillTotalCharges_process cfg element =
        Inr [element(''TotalCharges'' \<mapsto> VFloat
          (case float_of_string (py_replace CHR 0x20 ''2279.0'' s) of
             None \<Rightarrow> Finite False 2279 | Some x \<Rightarrow> x))])
   \<and> (element (FEATURE_TO_MODIFY cfg) = Some (VStr ''1 234'') \<longrightarrow>
      py_replace CHR 0x20 ''2279.0'' ''1 234'' = ''12279.0234''
      \<and> FillTotalCharges_process cfg element =
        Inr [element(''TotalCharges'' \<mapsto> VFloat (Finite False (6750464503016797 / 549755813888)))]
      \<and> \<bar>6750464503016797 / 549755813888 - 122790234 / (10000 :: rat)\<bar> < 1 / 2 ^ 40)"
proof (intro conjI impI)
  assume "element (FEATURE_TO_MODIFY cfg) \<in> {None, Some VNone, Some (VStr []), Some (VFloat NaN)}"
  then show "FillTotalCharges_process cfg element =
      Inr [element(''TotalCharges'' \<mapsto> VFloat (Finite False 2279))]"
    by (rule FillTotalCharges_default)
next
  assume "element (FEATURE_TO_MODIFY cfg) = Some (VStr s) \<and> s \<noteq> []"
  then show "FillTotalCharges_process cfg element =
        Inr [element(''TotalCharges'' \<mapsto> VFloat
          (case float_of_string (py_replace CHR 0x20 ''2279.0'' s) of
             None \<Rightarrow> Finite False 2279 | Some x \<Rightarrow> x))]"
    by (simp add: FillTotalCharges_string)
next
  show "py_replace CHR 0x20 ''2279.0'' ''1 234'' = ''12279.0234''"
    by (simp add: py_replace_def)
next
  assume a: "element (FEATURE_TO_MODIFY cfg) = Some (VStr ''1 234'')"
  have "py_replace CHR 0x20 ''2279.0'' ''1 234'' = ''12279.0234''"
    by (simp add: py_replace_def)
  with FillTotalCharges_string [of element cfg "''1 234''", OF a] show "FillTotalCharges_process cfg element =
        Inr [element(''TotalCharges'' \<mapsto> VFloat (Finite False (6750464503016797 / 549755813888)))]"
    by (simp add: float_of_12279)
next
  show "\<bar>6750464503016797 / 549755813888 - 122790234 / (10000 :: rat)\<bar> < 1 / 2 ^ 40"
    by simp
qed

theorem FillTotalCharges_imputes_witness:
  "FillTotalCharges_process example_config Map.empty =
     Inr [[''TotalCharges'' \<mapsto> VFloat (Finite False 2279)]]
   \<and> FillTotalCharges_process example_config [''TotalCharges'' \<mapsto> VStr ''abc''] =
     Inr [[''TotalCharges'' \<mapsto> VFloat (Finite False 2279)]]
   \<and> FillTotalCharges_process example_config [''TotalCharges'' \<mapsto> VStr ''1 234''] =
     Inr [[''TotalCharges'' \<mapsto> VFloat (Finite False (6750464503016797 / 549755813888))]]"
proof -
  have k: "FEATURE_TO_MODIFY example_config = ''TotalCharges''"
    by (simp add: example_config_def)
  have p: "float_of_string (py_replace CHR 0x20 ''2279.0'' ''abc'') = None"
    by code_simp
  have a: "FillTotalCharges_process example_config Map.empty =
     Inr [[''TotalCharges'' \<mapsto> VFloat (Finite False 2279)]]"
    using FillTotalCharges_imputes [of Map.empty example_config "[]"] by (simp add: k)
  have b: "FillTotalCharges_process example_config [''TotalCharges'' \<mapsto> VStr ''abc''] =
     Inr [[''TotalCharges'' \<mapsto> VFloat (Finite False 2279)]]"
    using FillTotalCharges_imputes [of "[''TotalCharges'' \<mapsto> VStr ''abc'']" example_config "''abc''"]
    by (simp add: k p)
  have c: "FillTotalCharges_process example_config [''TotalCharges'' \<mapsto> VStr ''1 234''] =
     Inr [[''TotalCharges'' \<mapsto> VFloat (Finite False (6750464503016797 / 549755813888))]]"
    using FillTotalCharges_imputes [of "[''TotalCharges'' \<mapsto> VStr ''1 234'']" example_config "''1 234''"]
    by (simp add: k float_of_12279)
  from a b c show ?thesis by simp
qed

theorem FillTotalCharges_not_finite:
  "FillTotalCharges_process example_config [''TotalCharges'' \<mapsto> VStr ''inf''] =
     Inr [[''TotalCharges'' \<mapsto> VFloat (Infinity False)]]
   \<and> \<not> isfinite (Infinity False)
   \<and> FillTotalCharges_process example_config [''TotalCharges'' \<mapsto> VStr ''nan''] =
     Inr [[''TotalCharges'' \<mapsto> VFloat NaN]]
   \<and> \<not> isfinite NaN"
proof -
  have k: "FEATURE_TO_MODIFY example_config = ''TotalCharges''"
    by (simp add: example_config_def)
  have p: "float_of_string (py_replace CHR 0x20 ''2279.0'' ''inf'') = Some (Infinity False)"
    by code_simp
  have q: "float_of_string (py_replace CHR 0x20 ''2279.0'' ''nan'') = Some NaN"
    by code_simp
  have a: "FillTotalCharges_process example_config [''TotalCharges'' \<mapsto> VStr ''inf''] =
     Inr [[''TotalCharges'' \<mapsto> VFloat (Infinity False)]]"
    using FillTotalCharges_string [of "[''TotalCharges'' \<mapsto> VStr ''inf'']" example_config "''inf''"]
    by (simp add: k p)
  have b: "FillTotalCharges_process example_config [''TotalCharges'' \<mapsto> VStr ''nan''] =
     Inr [[''TotalCharges'' \<mapsto> VFloat NaN]]"
    using FillTotalCharges_string [of "[''TotalCharges'' \<mapsto> VStr ''nan'']" example_config "''nan''"]
    by (simp add: k q)
  from a b show ?thesis by simp
qed

subsection \<open>Tenure imputer\<close>

lemma FillTenureWithMean_missing:
  assumes "element ''tenure'' \<in> {None, Some VNone, Some (VFloat NaN)}"
  shows "FillTenureWithMean_process tenure_mean element =
           Inr [element(''tenure'' \<mapsto> VFloat tenure_mean)]"
  using assms by (auto simp: FillTenureWithMean_process_def dict_get_def)

lemma FillTenureWithMean_empty_string:
  assumes "element ''tenure'' = Some (VStr [])"
  shows "FillTenureWithMean_process tenure_mean element =
           Inr [element(''tenure'' \<mapsto> VFloat (Finite False 0))]"
  using assms by (simp add: FillTenureWithMean_process_def dict_get_def)

lemma is_float_nan_iff: "is_float_nan v \<longleftrightarrow> v = VFloat NaN"
proof (cases v)
  case (VFloat x)
  then show ?thesis by (cases x) simp_all
qed simp_all

lemma FillTenureWithMean_coerce:
  assumes "element ''tenure'' = Some v" and "v \<notin> {VNone, VFloat NaN, VStr []}"
  shows "FillTenureWithMean_process tenure_mean element =
           (case py_float v of
              Inl e \<Rightarrow> Inl e
            | Inr x \<Rightarrow> Inr [element(''tenure'' \<mapsto> VFloat x)])"
  using assms
  by (simp add: FillTenureWithMean_process_def dict_get_def dict_item_def is_float_nan_iff)

text \<open>
  C4. For every record the tenure imputer sets tenure to the reference mean when the
  value is absent, None or a float NaN, to exactly 0.0 when the value is the empty
  string, and to the float coercion of the value otherwise (raising what the coercion
  raises). The missing case and the empty-string case give different results whenever
  the reference mean is not zero.
\<close>

theorem FillTenureWithMean_cases:
  "(element ''tenure'' \<in> {None, Some VNone, Some (VFloat NaN)} \<longrightarrow>
      FillTenureWithMean_process tenure_mean element =
        Inr [element(''tenure'' \<mapsto> VFloat tenure_mean)])
   \<and> (element ''tenure'' = Some (VStr []) \<longrightarrow>
      FillTenureWithMean_process tenure_mean element =
        Inr [element(''tenure'' \<mapsto> VFloat (Finite False 0))])
   \<and> (element ''tenure'' = Some v \<and> v \<notin> {VNone, VFloat NaN, VStr []} \<longrightarrow>
      FillTenureWithMean_process tenure_mean element =
        (case py_float v of
           Inl e \<Rightarrow> Inl e
         | Inr x \<Rightarrow> Inr [element(''tenure'' \<mapsto> VFloat x)]))
   \<and> (tenure_mean \<notin> {Finite False 0, Finite True 0}
        \<and> e1 ''tenure'' \<in> {None, Some VNone, Some (VFloat NaN)}
        \<and> e2 ''tenure'' = Some (VStr []) \<longrightarrow>
      FillTenureWithMean_process tenure_mean e1 \<noteq> FillTenureWithMean_process tenure_mean e2)"
proof (intro conjI impI)
  assume "element ''tenure'' \<in> {None, Some VNone, Some (VFloat NaN)}"
  then show "FillTenureWithMean_process tenure_mean element =
        Inr [element(''tenure'' \<mapsto> VFloat tenure_mean)]"
    by (rule FillTenureWithMean_missing)
next
  assume "element ''tenure'' = Some (VStr [])"
  then show "FillTenureWithMean_process tenure_mean element =
        Inr [element(''tenure'' \<mapsto> VFloat (Finite False 0))]"
    by (rule FillTenureWithMean_empty_string)
next
  assume "element ''tenure'' = Some v \<and> v \<notin> {VNone, VFloat NaN, VStr []}"
  then show "FillTenureWithMean_process tenure_mean element =
        (case py_float v of
           Inl e \<Rightarrow> Inl e
         | Inr x \<Rightarrow> Inr [element(''tenure'' \<mapsto> VFloat x)])"
    by (simp add: FillTenureWithMean_coerce)
next
  assume a: "tenure_mean \<notin> {Finite False 0, Finite True 0}
        \<and> e1 ''tenure'' \<in> {None, Some VNone, Some (VFloat NaN)}
        \<and> e2 ''tenure'' = Some (VStr [])"
  then have r1: "FillTenureWithMean_process tenure_mean e1 =
        Inr [e1(''tenure'' \<mapsto> VFloat tenure_mean)]"
    by (simp add: FillTenureWithMean_missing)
  from a have r2: "FillTenureWithMean_process tenure_mean e2 =
        Inr [e2(''tenure'' \<mapsto> VFloat (Finite False 0))]"
    by (simp add: FillTenureWithMean_empty_string)
  show "FillTenureWithMean_process tenure_mean e1 \<noteq> FillTenureWithMean_process tenure_mean e2"
  proof
    assume "FillTenureWithMean_process tenure_mean e1 = FillTenureWithMean_process tenure_mean e2"
    with r1 r2 have "e1(''tenure'' \<mapsto> VFloat tenure_mean) = e2(''tenure'' \<mapsto> VFloat (Finite False 0))"
      by simp
    then have "VFloat tenure_mean = VFloat (Finite False 0)"
      by (rule map_upd_eqD1)
    with a show False by simp
  qed
qed

theorem FillTenureWithMean_cases_witness:
  "FillTenureWithMean_process (Finite False 32) [''tenure'' \<mapsto> VNone] =
     Inr [[''tenure'' \<mapsto> VFloat (Finite False 32)]]
   \<and> FillTenureWithMean_process (Finite False 32) [''tenure'' \<mapsto> VStr []] =
     Inr [[''tenure'' \<mapsto> VFloat (Finite False 0)]]
   \<and> FillTenureWithMean_process (Finite False 32) [''tenure'' \<mapsto> VStr ''12''] =
     Inr [[''tenure'' \<mapsto> VFloat (Finite False 12)]]
   \<and> FillTenureWithMean_process (Finite False 32) [''tenure'' \<mapsto> VNone] \<noteq>
     FillTenureWithMean_process (Finite False 32) [''tenure'' \<mapsto> VStr []]"
proof -
  let ?m = "Finite False 32"
  have p: "float_of_string ''12'' = Some (Finite False 12)"
    by code_simp
  have a: "FillTenureWithMean_process ?m [''tenure'' \<mapsto> VNone] =
     Inr [[''tenure'' \<mapsto> VFloat ?m]]"
    using FillTenureWithMean_cases [of "[''tenure'' \<mapsto> VNone]" ?m VNone Map.empty Map.empty]
    by simp
  have b: "FillTenureWithMean_process ?m [''tenure'' \<mapsto> VStr []] =
     Inr [[''tenure'' \<mapsto> VFloat (Finite False 0)]]"
    using FillTenureWithMean_cases [of "[''tenure'' \<mapsto> VStr []]" ?m VNone Map.empty Map.empty]
    by simp
  have c: "FillTenureWithMean_process ?m [''tenure'' \<mapsto> VStr ''12''] =
     Inr [[''tenure'' \<mapsto> VFloat (Finite False 12)]]"
    using FillTenureWithMean_cases [of "[''tenure'' \<mapsto> VStr ''12'']" ?m "VStr ''12''" Map.empty Map.empty]
    by (simp add: p)
  have d: "FillTenureWithMean_process ?m [''tenure'' \<mapsto> VNone] \<noteq>
     FillTenureWithMean_process ?m [''tenure'' \<mapsto> VStr []]"
    using FillTenureWithMean_cases [of Map.empty ?m VNone "[''tenure'' \<mapsto> VNone]" "[''tenure'' \<mapsto> VStr []]"]
    by simp
  from a b c d show ?thesis by blast
qed

subsection \<open>A tenure that is not a number\<close>

lemma ParDo_Inr_member:
  assumes "ParDo f xs = Inr ys" and "x \<in> set xs"
  shows "\<exists>zs. f x = Inr zs \<and> set zs \<subseteq> set ys"
  using assms
proof (induction xs arbitrary: ys)
  case Nil
  then show ?case by simp
next
  case (Cons a xs)
  from Cons.prems(1) obtain as bs where
    fa: "f a = Inr as" and rest: "ParDo f xs = Inr bs" and ys: "ys = as @ bs"
    by (auto split: sum.splits)
  show ?case
  proof (cases "x = a")
    case True
    with fa ys show ?thesis by auto
  next
    case False
    with Cons.prems(2) have "x \<in> set xs" by simp
    from Cons.IH [OF rest this] ys show ?thesis by auto
  qed
qed

lemma ParDo_raises:
  assumes "x \<in> set xs" and "f x = Inl e"
  shows "\<exists>e'. ParDo f xs = Inl e'"
proof (cases "ParDo f xs")
  case (Inl e')
  then show ?thesis by blast
next
  case (Inr ys)
  from ParDo_Inr_member [OF Inr assms(1)] assms(2) show ?thesis by simp
qed

lemma apply_stage_Inr:
  assumes "apply_stage p f = Inr ys"
  shows "\<exists>xs. p = Inr xs \<and> ParDo f xs = Inr ys"
  using assms by (cases p) (simp_all add: apply_stage_def)

lemma stage_keeps:
  assumes "ParDo f xs = Inr ys" and "x \<in> set xs" and "P x"
    and "\<And>x zs. P x \<Longrightarrow> f x = Inr zs \<Longrightarrow> \<exists>z \<in> set zs. Q z"
  shows "\<exists>y \<in> set ys. Q y"
proof -
  from ParDo_Inr_member [OF assms(1,2)] obtain zs where
    z: "f x = Inr zs" "set zs \<subseteq> set ys" by blast
  from assms(4) [OF assms(3) z(1)] z(2) show ?thesis by blast
qed

lemma FillTenureWithMean_raises:
  assumes "element ''tenure'' = Some (VStr s)" and "s \<noteq> []" and "float_of_string s = None"
  shows "FillTenureWithMean_process tenure_mean element =
           Inl (ValueError ''could not convert string to float'')"
  using assms by (simp add: FillTenureWithMean_process_def dict_get_def dict_item_def)

lemma Filter_keeps_tenure:
  assumes "element ''Contract'' = Some (VStr c) \<and> c \<in> set valid_contracts \<and> element ''tenure'' = t"
    and "FilterInvalidContract_process element = Inr zs"
  shows "\<exists>z \<in> set zs. (\<exists>v. z ''Contract'' = Some v) \<and> z ''tenure'' = t"
  using assms by (auto simp: FilterInvalidContract_process_def dict_get_def)

lemma OHE_keeps_tenure:
  assumes "(\<exists>v. element ''Contract'' = Some v) \<and> element ''tenure'' = t"
    and "OHEContract_process element = Inr zs"
  shows "\<exists>z \<in> set zs. z ''tenure'' = t"
proof -
  from assms(1) obtain v where v: "element ''Contract'' = Some v" and t: "element ''tenure'' = t"
    by blast
  have "''tenure'' \<notin> dom (map_of (mapping_get contract_mapping v (indicators 0 0 0)))"
    by (cases v) (auto simp: contract_mapping_def indicators_def split: if_splits)
  then have "dict_update element (mapping_get contract_mapping v (indicators 0 0 0)) ''tenure'' = t"
    using t by (simp add: dict_update_def map_add_dom_app_simps)
  with assms(2) v show ?thesis
    by (auto simp: OHEContract_process_def dict_item_def)
qed

lemma FillTotalCharges_keeps_tenure:
  assumes "element ''tenure'' = t" and "FillTotalCharges_process cfg element = Inr zs"
  shows "\<exists>z \<in> set zs. z ''tenure'' = t"
  using assms
  by (auto simp: FillTotalCharges_process_def Let_def split: sum.splits pyerror.splits)

lemma FillPhoneService_keeps_tenure:
  assumes "element ''tenure'' = t" and "FillPhoneService_process element = Inr zs"
  shows "\<exists>z \<in> set zs. z ''tenure'' = t"
  using assms
  by (auto simp: FillPhoneService_process_def Let_def split: if_splits)

lemma cleaned_rows_tenure_raises:
  assumes b: "element \<in> set batch"
    and c: "element ''Contract'' = Some (VStr c)" "c \<in> set valid_contracts"
    and t: "element ''tenure'' = Some (VStr s)" "s \<noteq> []" "float_of_string s = None"
  shows "\<exists>e. cleaned_rows cfg tenure_mean (Inr batch) = Inl e"
proof (cases "cleaned_rows cfg tenure_mean (Inr batch)")
  case (Inl e)
  then show ?thesis by blast
next
  case (Inr r)
  let ?t = "Some (VStr s)"
  from Inr obtain l8 where
    p8: "apply_stage (apply_stage (apply_stage (apply_stage (apply_stage (Inr batch)
           FilterInvalidContract_process) OHEContract_process) (FillTotalCharges_process cfg))
           FillPhoneService_process) (FillTenureWithMean_process tenure_mean) = Inr l8"
    unfolding cleaned_rows_def Let_def by (blast dest: apply_stage_Inr)
  from apply_stage_Inr [OF p8] obtain l7 where
    p7: "apply_stage (apply_stage (apply_stage (apply_stage (Inr batch)
           FilterInvalidContract_process) OHEContract_process) (FillTotalCharges_process cfg))
           FillPhoneService_process = Inr l7"
    and s8: "ParDo (FillTenureWithMean_process tenure_mean) l7 = Inr l8" by blast
  from apply_stage_Inr [OF p7] obtain l6 where
    p6: "apply_stage (apply_stage (apply_stage (Inr batch)
           FilterInvalidContract_process) OHEContract_process) (FillTotalCharges_process cfg) = Inr l6"
    and s7: "ParDo FillPhoneService_process l6 = Inr l7" by blast
  from apply_stage_Inr [OF p6] obtain l5 where
    p5: "apply_stage (apply_stage (Inr batch)
           FilterInvalidContract_process) OHEContract_process = Inr l5"
    and s6: "ParDo (FillTotalCharges_process cfg) l5 = Inr l6" by blast
  from apply_stage_Inr [OF p5] obtain l4 where
    p4: "apply_stage (Inr batch) FilterInvalidContract_process = Inr l4"
    and s5: "ParDo OHEContract_process l4 = Inr l5" by blast
  from p4 have s4: "ParDo FilterInvalidContract_process batch = Inr l4"
    by (simp add: apply_stage_def)
  have e0: "element ''Contract'' = Some (VStr c) \<and> c \<in> set valid_contracts \<and> element ''tenure'' = ?t"
    using c t by simp
  have "\<exists>y \<in> set l4. (\<exists>v. y ''Contract'' = Some v) \<and> y ''tenure'' = ?t"
  proof (rule stage_keeps [OF s4 b,
        where P = "\<lambda>x. x ''Contract'' = Some (VStr c) \<and> c \<in> set valid_contracts \<and> x ''tenure'' = ?t"])
    show "element ''Contract'' = Some (VStr c) \<and> c \<in> set valid_contracts \<and> element ''tenure'' = ?t"
      by (rule e0)
  next
    fix x zs
    assume "x ''Contract'' = Some (VStr c) \<and> c \<in> set valid_contracts \<and> x ''tenure'' = ?t"
      and "FilterInvalidContract_process x = Inr zs"
    then show "\<exists>z \<in> set zs. (\<exists>v. z ''Contract'' = Some v) \<and> z ''tenure'' = ?t"
      by (rule Filter_keeps_tenure)
  qed
  then obtain x4 where x4: "x4 \<in> set l4" "(\<exists>v. x4 ''Contract'' = Some v) \<and> x4 ''tenure'' = ?t"
    by blast
  have "\<exists>y \<in> set l5. y ''tenure'' = ?t"
  proof (rule stage_keeps [OF s5 x4(1),
        where P = "\<lambda>x. (\<exists>v. x ''Contract'' = Some v) \<and> x ''tenure'' = ?t"])
    show "(\<exists>v. x4 ''Contract'' = Some v) \<and> x4 ''tenure'' = ?t" by (rule x4(2))
  next
    fix x zs
    assume "(\<exists>v. x ''Contract'' = Some v) \<and> x ''tenure'' = ?t"
      and "OHEContract_process x = Inr zs"
    then show "\<exists>z \<in> set zs. z ''tenure'' = ?t" by (rule OHE_keeps_tenure)
  qed
  then obtain x5 where x5: "x5 \<in> set l5" "x5 ''tenure'' = ?t" by blast
  have "\<exists>y \<in> set l6. y ''tenure'' = ?t"
  proof (rule stage_keeps [OF s6 x5(1), where P = "\<lambda>x. x ''tenure'' = ?t"])
    show "x5 ''tenure'' = ?t" by (rule x5(2))
  next
    fix x zs
    assume "x ''tenure'' = ?t" and "FillTotalCharges_process cfg x = Inr zs"
    then show "\<exists>z \<in> set zs. z ''tenure'' = ?t" by (rule FillTotalCharges_keeps_tenure)
  qed
  then obtain x6 where x6: "x6 \<in> set l6" "x6 ''tenure'' = ?t" by blast
  have "\<exists>y \<in> set l7. y ''tenure'' = ?t"
  proof (rule stage_keeps [OF s7 x6(1), where P = "\<lambda>x. x ''tenure'' = ?t"])
    show "x6 ''tenure'' = ?t" by (rule x6(2))
  next
    fix x zs
    assume "x ''tenure'' = ?t" and "FillPhoneService_process x = Inr zs"
    then show "\<exists>z \<in> set zs. z ''tenure'' = ?t" by (rule FillPhoneService_keeps_tenure)
  qed
  then obtain x7 where x7: "x7 \<in> set l7" "x7 ''tenure'' = ?t" by blast
  have "FillTenureWithMean_process tenure_mean x7 =
          Inl (ValueError ''could not convert string to float'')"
    using x7(2) t(2,3) by (rule FillTenureWithMean_raises)
  from ParDo_raises [where f = "FillTenureWithMean_process tenure_mean", OF x7(1) this] s8
  show ?thesis by simp
qed

lemma run_pipeline_raises:
  assumes "\<not> is_csv_empty content"
    and "find_leading_column_index (py_strip (readline (open_read content))) (LEADING_COLUMN cfg) = Inr idx"
    and "cleaned_rows cfg tenure_mean (parsed_rows cfg idx content) = Inl e"
  shows "run_pipeline float_repr cfg tenure_mean input_file content =
           \<lparr>printed = [input_file @ '' contains data.''], output_file = None, outcome = Inl e\<rparr>"
  using assms by (simp add: run_pipeline_def processed_data_def apply_stage_def)

text \<open>
  C5. For every record whose tenure value is a non-empty string that float() does not
  parse, the tenure imputer raises ValueError; nothing catches it: the stage fails on
  every batch that contains the record, and a run of the pipeline in which such a
  record with a valid Contract reaches the cleaning chain raises and writes no output.
\<close>

theorem FillTenureWithMean_non_numeric_aborts:
  assumes "element ''tenure'' = Some (VStr s)" and "s \<noteq> []" and "float_of_string s = None"
  shows "FillTenureWithMean_process tenure_mean element =
           Inl (ValueError ''could not convert string to float'')
       \<and> (element \<in> set batch \<longrightarrow>
            (\<exists>e. ParDo (FillTenureWithMean_process tenure_mean) batch = Inl e))
       \<and> (element \<in> set batch \<and> element ''Contract'' = Some (VStr c) \<and> c \<in> set valid_contracts
            \<and> \<not> is_csv_empty content
            \<and> find_leading_column_index (py_strip (readline (open_read content)))
                  (LEADING_COLUMN cfg) = Inr idx
            \<and> parsed_rows cfg idx content = Inr batch \<longrightarrow>
            (\<exists>e. run_pipeline float_repr cfg tenure_mean input_file content =
                   \<lparr>printed = [input_file @ '' contains data.''], output_file = None,
                    outcome = Inl e\<rparr>))"
proof (intro conjI impI)
  show r: "FillTenureWithMean_process tenure_mean element =
           Inl (ValueError ''could not convert string to float'')"
    using assms by (rule FillTenureWithMean_raises)
  assume "element \<in> set batch"
  from ParDo_raises [where f = "FillTenureWithMean_process tenure_mean", OF this r]
  show "\<exists>e. ParDo (FillTenureWithMean_process tenure_mean) batch = Inl e" .
next
  assume a: "element \<in> set batch \<and> element ''Contract'' = Some (VStr c) \<and> c \<in> set valid_contracts
            \<and> \<not> is_csv_empty content
            \<and> find_leading_column_index (py_strip (readline (open_read content)))
                  (LEADING_COLUMN cfg) = Inr idx
            \<and> parsed_rows cfg idx content = Inr batch"
  then have "\<exists>e. cleaned_rows cfg tenure_mean (Inr batch) = Inl e"
    using assms by (auto intro: cleaned_rows_tenure_raises)
  then obtain e where "cleaned_rows cfg tenure_mean (parsed_rows cfg idx content) = Inl e"
    using a by auto
  with a have "run_pipeline float_repr cfg tenure_mean input_file content =
           \<lparr>printed = [input_file @ '' contains data.''], output_file = None, outcome = Inl e\<rparr>"
    by (simp add: run_pipeline_raises)
  then show "\<exists>e. run_pipeline float_repr cfg tenure_mean input_file content =
                   \<lparr>printed = [input_file @ '' contains data.''], output_file = None,
                    outcome = Inl e\<rparr>"
    by blast
qed

lemma bad_tenure_file_parsed:
  "parsed_rows example_config 1 bad_tenure_file =
     Inr [dict_of_pairs [(''tenure'', VStr ''abc''), (''PhoneService'', VStr ''Yes''),
                         (''Contract'', VStr ''One year''), (''TotalCharges'', VStr ''10'')]]"
proof -
  let ?row = "[(''customerID'', VStr ''c1''), (''tenure'', VStr ''abc''), (''PhoneService'', VStr ''Yes''),
               (''Contract'', VStr ''One year''), (''TotalCharges'', VStr ''10'')]"
  have r: "ReadFromText bad_tenure_file 1 = [''0,c1,abc,Yes,One year,10'']"
    unfolding bad_tenure_file_def by code_simp
  have z: "zip (COLUMN_NAMES example_config)
             (map VStr (drop 1 (py_split CHR '','' ''0,c1,abc,Yes,One year,10''))) = ?row"
    by code_simp
  have d: "to_dict example_config 1 ''0,c1,abc,Yes,One year,10'' = dict_of_pairs ?row"
    unfolding to_dict_def z ..
  have i: "items_of (dict_of_pairs ?row) (FEATURES_AFTER_CONTRACT example_config) =
             Inr [(''tenure'', VStr ''abc''), (''PhoneService'', VStr ''Yes''),
                  (''Contract'', VStr ''One year''), (''TotalCharges'', VStr ''10'')]"
    by code_simp
  have f: "filter_features example_config (dict_of_pairs ?row) =
             Inr (dict_of_pairs [(''tenure'', VStr ''abc''), (''PhoneService'', VStr ''Yes''),
                                 (''Contract'', VStr ''One year''), (''TotalCharges'', VStr ''10'')])"
    unfolding filter_features_def i by simp
  show ?thesis
    by (simp add: parsed_rows_def r apply_stage_def Map_fn_def d f del: One_nat_def)
qed

theorem FillTenureWithMean_non_numeric_aborts_witness:
  "FillTenureWithMean_process (Finite False 32)
     (dict_of_pairs [(''tenure'', VStr ''abc''), (''PhoneService'', VStr ''Yes''),
                     (''Contract'', VStr ''One year''), (''TotalCharges'', VStr ''10'')]) =
     Inl (ValueError ''could not convert string to float'')
   \<and> (\<exists>e. run_pipeline (\<lambda>x. []) example_config (Finite False 32) ''input.csv'' bad_tenure_file =
          \<lparr>printed = [''input.csv contains data.''], output_file = None, outcome = Inl e\<rparr>)"
proof -
  let ?el = "dict_of_pairs [(''tenure'', VStr ''abc''), (''PhoneService'', VStr ''Yes''),
                     (''Contract'', VStr ''One year''), (''TotalCharges'', VStr ''10'')]"
  have h1: "?el ''tenure'' = Some (VStr ''abc'')" by (simp add: dict_of_pairs_def)
  have h2: "''abc'' \<noteq> []" by simp
  have h3: "float_of_string ''abc'' = None" by code_simp
  have c1: "?el ''Contract'' = Some (VStr ''One year'')" by (simp add: dict_of_pairs_def)
  have c2: "''One year'' \<in> set valid_contracts" by (simp add: valid_contracts_def)
  have n: "\<not> is_csv_empty bad_tenure_file"
    unfolding bad_tenure_file_def by code_simp
  have l: "find_leading_column_index (py_strip (readline (open_read bad_tenure_file)))
             (LEADING_COLUMN example_config) = Inr 1"
    unfolding bad_tenure_file_def by code_simp
  from FillTenureWithMean_non_numeric_aborts
    [where element = ?el and s = "''abc''" and tenure_mean = "Finite False 32"
       and batch = "[?el]" and c = "''One year''" and content = bad_tenure_file
       and cfg = example_config and idx = 1 and float_repr = "\<lambda>x. []"
       and input_file = "''input.csv''", OF h1 h2 h3]
  show ?thesis
    using c1 c2 n l bad_tenure_file_parsed by simp
qed

subsection \<open>Feature filter\<close>

lemma items_of_present:
  assumes "set keys \<subseteq> dom element"
  shows "items_of element keys = Inr (map (\<lambda>k. (k, the (element k))) keys)"
  using assms by (induction keys) (auto simp: dict_item_def)

lemma items_of_absent:
  assumes "find (\<lambda>k. element k = None) keys = Some k"
  shows "items_of element keys = Inl (KeyError k)"
  using assms
  by (induction keys) (auto simp: dict_item_def split: if_splits option.splits)

lemma dict_of_pairs_tabulate:
  "dict_of_pairs (map (\<lambda>k. (k, f k)) keys) = (\<lambda>k. if k \<in> set keys then Some (f k) else None)"
proof
  fix k
  show "dict_of_pairs (map (\<lambda>k. (k, f k)) keys) k = (if k \<in> set keys then Some (f k) else None)"
    unfolding dict_of_pairs_def
    by (induction keys) (auto simp: map_add_def split: option.splits)
qed

lemma find_absent_key:
  assumes "\<not> set keys \<subseteq> dom element"
  shows "\<exists>k. find (\<lambda>k. element k = None) keys = Some k \<and> k \<in> set keys \<and> element k = None"
proof (cases "find (\<lambda>k. element k = None) keys")
  case None
  with assms show ?thesis by (auto simp: find_None_iff)
next
  case (Some k)
  then show ?thesis by (auto simp: find_Some_iff)
qed

text \<open>
  C6, as amended. For every record that has every key of the configured allow-list, the
  feature filter returns a new record with exactly the keys of the allow-list and the
  values of the input. When a key of the allow-list is absent from the input record,
  the filter raises KeyError for the first such key: an absent key is not omitted.
\<close>

theorem filter_features_selects:
  "(set (FEATURES_AFTER_CONTRACT cfg) \<subseteq> dom element \<longrightarrow>
      (\<exists>out. filter_features cfg element = Inr out
          \<and> dom out = set (FEATURES_AFTER_CONTRACT cfg)
          \<and> (\<forall>k \<in> set (FEATURES_AFTER_CONTRACT cfg). out k = element k)))
   \<and> (\<not> set (FEATURES_AFTER_CONTRACT cfg) \<subseteq> dom element \<longrightarrow>
      (\<exists>k. find (\<lambda>k. element k = None) (FEATURES_AFTER_CONTRACT cfg) = Some k
          \<and> k \<in> set (FEATURES_AFTER_CONTRACT cfg) \<and> element k = None
          \<and> filter_features cfg element = Inl (KeyError k)))"
proof (intro conjI impI)
  let ?keys = "FEATURES_AFTER_CONTRACT cfg"
  assume a: "set ?keys \<subseteq> dom element"
  let ?out = "dict_of_pairs (map (\<lambda>k. (k, the (element k))) ?keys)"
  have "filter_features cfg element = Inr ?out"
    by (simp add: filter_features_def items_of_present [OF a])
  moreover have "dom ?out = set ?keys"
    unfolding dict_of_pairs_tabulate by (auto split: if_splits)
  moreover have "\<forall>k \<in> set ?keys. ?out k = element k"
    using a by (auto simp: dict_of_pairs_tabulate)
  ultimately show "\<exists>out. filter_features cfg element = Inr out
          \<and> dom out = set ?keys \<and> (\<forall>k \<in> set ?keys. out k = element k)"
    by blast
next
  let ?keys = "FEATURES_AFTER_CONTRACT cfg"
  assume "\<not> set ?keys \<subseteq> dom element"
  from find_absent_key [OF this] obtain k where
    k: "find (\<lambda>k. element k = None) ?keys = Some k" "k \<in> set ?keys" "element k = None"
    by blast
  have "filter_features cfg element = Inl (KeyError k)"
    by (simp add: filter_features_def items_of_absent [OF k(1)])
  with k show "\<exists>k. find (\<lambda>k. element k = None) ?keys = Some k
          \<and> k \<in> set ?keys \<and> element k = None
          \<and> filter_features cfg element = Inl (KeyError k)"
    by blast
qed

theorem filter_features_selects_witness:
  "(\<exists>out. filter_features example_config
             [''customerID'' \<mapsto> VStr ''c1'', ''tenure'' \<mapsto> VStr ''5'', ''PhoneService'' \<mapsto> VStr ''Yes'',
              ''Contract'' \<mapsto> VStr ''One year'', ''TotalCharges'' \<mapsto> VStr ''10''] = Inr out
      \<and> out ''tenure'' = Some (VStr ''5'') \<and> out ''customerID'' = None)
   \<and> (\<exists>k. k \<in> set (FEATURES_AFTER_CONTRACT example_config)
      \<and> filter_features example_config [''tenure'' \<mapsto> VStr ''5''] = Inl (KeyError k))"
proof -
  let ?e = "[''customerID'' \<mapsto> VStr ''c1'', ''tenure'' \<mapsto> VStr ''5'', ''PhoneService'' \<mapsto> VStr ''Yes'',
              ''Contract'' \<mapsto> VStr ''One year'', ''TotalCharges'' \<mapsto> VStr ''10'']"
  let ?f = "[''tenure'' \<mapsto> VStr ''5'']"
  have k: "FEATURES_AFTER_CONTRACT example_config =
             [''tenure'', ''PhoneService'', ''Contract'', ''TotalCharges'']"
    by (simp add: example_config_def)
  have h1: "set (FEATURES_AFTER_CONTRACT example_config) \<subseteq> dom ?e"
    by (simp add: k)
  have h2: "\<not> set (FEATURES_AFTER_CONTRACT example_config) \<subseteq> dom ?f"
    by (simp add: k)
  from filter_features_selects [of example_config ?e] h1 obtain out where
    o: "filter_features example_config ?e = Inr out"
      "dom out = set (FEATURES_AFTER_CONTRACT example_config)"
      "\<forall>k \<in> set (FEATURES_AFTER_CONTRACT example_config). out k = ?e k"
    by blast
  from o(3) have "out ''tenure'' = Some (VStr ''5'')" by (simp add: k)
  moreover have "out ''customerID'' = None"
  proof -
    have "''customerID'' \<notin> dom out" unfolding o(2) by (simp add: k)
    then show ?thesis by (simp add: domIff)
  qed
  moreover from filter_features_selects [of example_config ?f] h2
  have "\<exists>k. k \<in> set (FEATURES_AFTER_CONTRACT example_config)
      \<and> filter_features example_config ?f = Inl (KeyError k)"
    by blast
  ultimately show ?thesis using o(1) by blast
qed

theorem filter_features_absent_key_raises:
  "filter_features example_config [''tenure'' \<mapsto> VStr ''5''] = Inl (KeyError ''PhoneService'')"
  by (simp add: filter_features_def example_config_def dict_item_def)

subsection \<open>PhoneService imputer and encoder, and the null guard\<close>

lemma lower_char_eq_lower:
  assumes "97 \<le> (of_char d :: nat)" and "(of_char d :: nat) \<le> 122"
  shows "lower_char c = d \<longleftrightarrow> c = d \<or> c = char_of ((of_char d :: nat) - 32)"
proof -
  let ?n = "of_char c :: nat"
  let ?m = "of_char d :: nat"
  have b: "?n < 256" by simp
  show ?thesis
  proof (cases "(65 \<le> ?n \<and> ?n \<le> 90) \<or> (192 \<le> ?n \<and> ?n \<le> 222 \<and> ?n \<noteq> 215)")
    case True
    then have l: "lower_char c = char_of (?n + 32)" by (simp add: lower_char_def Let_def)
    from True have lt: "?n + 32 < 256" by auto
    have "take_bit 8 (?n + 32) = ?n + 32"
      using lt by (simp add: take_bit_nat_eq_self)
    then have "char_of (?n + 32) = d \<longleftrightarrow> ?n + 32 = ?m"
      by (simp add: char_of_eq_iff)
    also have "\<dots> \<longleftrightarrow> ?n = ?m - 32" using assms by auto
    also have "\<dots> \<longleftrightarrow> c = char_of (?m - 32)"
    proof -
      have "take_bit 8 (?m - 32) = ?m - 32"
        using assms by (simp add: take_bit_nat_eq_self)
      then have "c = char_of (?m - 32) \<longleftrightarrow> ?m - 32 = ?n"
        by (metis char_of_eq_iff)
      then show ?thesis by auto
    qed
    finally have "lower_char c = d \<longleftrightarrow> c = char_of (?m - 32)" using l by simp
    moreover have "c \<noteq> d" using True assms by auto
    ultimately show ?thesis by simp
  next
    case False
    then have l: "lower_char c = c" by (auto simp: lower_char_def Let_def)
    have "c \<noteq> char_of (?m - 32)"
    proof
      assume "c = char_of (?m - 32)"
      moreover have "(?m - 32) mod 256 = ?m - 32"
        using assms by simp
      ultimately have "?n = ?m - 32" by simp
      with False assms show False by auto
    qed
    with l show ?thesis by auto
  qed
qed

lemma lower_char_y: "lower_char c = CHR ''y'' \<longleftrightarrow> c = CHR ''y'' \<or> c = CHR ''Y''"
proof -
  have "char_of (89 :: nat) = CHR ''Y''" by (simp add: char_of_eq_iff)
  with lower_char_eq_lower [of "CHR ''y''" c] show ?thesis by simp
qed

lemma lower_char_e: "lower_char c = CHR ''e'' \<longleftrightarrow> c = CHR ''e'' \<or> c = CHR ''E''"
proof -
  have "char_of (69 :: nat) = CHR ''E''" by (simp add: char_of_eq_iff)
  with lower_char_eq_lower [of "CHR ''e''" c] show ?thesis by simp
qed

lemma lower_char_s: "lower_char c = CHR ''s'' \<longleftrightarrow> c = CHR ''s'' \<or> c = CHR ''S''"
proof -
  have "char_of (83 :: nat) = CHR ''S''" by (simp add: char_of_eq_iff)
  with lower_char_eq_lower [of "CHR ''s''" c] show ?thesis by simp
qed

lemma py_lower_yes:
  "py_lower s = ''yes'' \<longleftrightarrow>
     s \<in> {''yes'', ''yeS'', ''yEs'', ''yES'', ''Yes'', ''YeS'', ''YEs'', ''YES''}"
proof -
  have "py_lower s = ''yes'' \<longleftrightarrow>
          (\<exists>a b c. s = [a, b, c] \<and> lower_char a = CHR ''y'' \<and> lower_char b = CHR ''e''
             \<and> lower_char c = CHR ''s'')"
    by (auto simp: py_lower_def map_eq_Cons_conv)
  also have "\<dots> \<longleftrightarrow> s \<in> {''yes'', ''yeS'', ''yEs'', ''yES'', ''Yes'', ''YeS'', ''YEs'', ''YES''}"
    unfolding lower_char_y lower_char_e lower_char_s by auto
  finally show ?thesis .
qed

lemma FillPhoneService_missing:
  assumes "element ''PhoneService'' \<in> {None, Some VNone, Some (VFloat NaN)}"
  shows "FillPhoneService_process element = Inr [element(''PhoneService'' \<mapsto> VStr ''No'')]"
  using assms by (auto simp: FillPhoneService_process_def dict_get_def)

lemma MapPhoneService_string:
  assumes "element ''PhoneService'' = Some (VStr s)"
  shows "MapPhoneService_process element =
           Inr [element(''PhoneService'' \<mapsto> VInt (if py_lower s = ''yes'' then 1 else 0))]"
  using assms by (simp add: MapPhoneService_process_def dict_item_def)

lemma py_lower_No: "py_lower ''No'' = ''no''"
  by code_simp

lemma FillTenureWithMean_keeps_PhoneService:
  assumes "FillTenureWithMean_process tenure_mean element = Inr zs"
  shows "\<exists>z. zs = [z] \<and> z ''PhoneService'' = element ''PhoneService''"
  using assms
  by (auto simp: FillTenureWithMean_process_def Let_def split: if_splits sum.splits)

lemma HandleContract_process_cases:
  "HandleContract_process element =
     (case element ''Contract'' of
        None \<Rightarrow> Inl (KeyError ''Contract'')
      | Some v \<Rightarrow> Inl (AttributeError ''any''))"
  by (simp add: HandleContract_process_def dict_item_def bool_any_def split: option.splits)

text \<open>
  C7. The null guard \<^verbatim>\<open>HandleContract\<close> on a record whose Contract is None: the
  condition \<^verbatim>\<open>pd.isna(element['Contract']).any()\<close> raises AttributeError, so the
  ValueError of the next line is not reached.
\<close>

theorem HandleContract_null_Contract:
  "HandleContract_process [''Contract'' \<mapsto> VNone] = Inl (AttributeError ''any'')"
  by (simp add: HandleContract_process_def dict_item_def bool_any_def)

text \<open>
  C8. For every record whose PhoneService value is absent, None or a float NaN, the
  PhoneService imputer sets it to the string No. The PhoneService encoder maps a string
  value to 1 exactly when it is yes in some letter case, and to 0 otherwise. So a
  record that enters with PhoneService missing leaves the encoder with PhoneService 0,
  also with the tenure imputer between the two stages as in the pipeline.
\<close>

theorem PhoneService_imputed_then_encoded:
  "(element ''PhoneService'' \<in> {None, Some VNone, Some (VFloat NaN)} \<longrightarrow>
      FillPhoneService_process element = Inr [element(''PhoneService'' \<mapsto> VStr ''No'')])
   \<and> (element ''PhoneService'' = Some (VStr s) \<longrightarrow>
      MapPhoneService_process element =
        Inr [element(''PhoneService'' \<mapsto>
          VInt (if s \<in> {''yes'', ''yeS'', ''yEs'', ''yES'', ''Yes'', ''YeS'', ''YEs'', ''YES''}
                then 1 else 0))])
   \<and> (element ''PhoneService'' \<in> {None, Some VNone, Some (VFloat NaN)} \<longrightarrow>
      apply_stage (FillPhoneService_process element) MapPhoneService_process =
        Inr [element(''PhoneService'' \<mapsto> VInt 0)])
   \<and> (element ''PhoneService'' \<in> {None, Some VNone, Some (VFloat NaN)}
       \<and> apply_stage (apply_stage (FillPhoneService_process element)
            (FillTenureWithMean_process tenure_mean)) MapPhoneService_process = Inr outs \<longrightarrow>
      (\<exists>out. outs = [out] \<and> out ''PhoneService'' = Some (VInt 0)))"
proof (intro conjI impI)
  assume "element ''PhoneService'' \<in> {None, Some VNone, Some (VFloat NaN)}"
  then show "FillPhoneService_process element = Inr [element(''PhoneService'' \<mapsto> VStr ''No'')]"
    by (rule FillPhoneService_missing)
next
  assume "element ''PhoneService'' = Some (VStr s)"
  then show "MapPhoneService_process element =
        Inr [element(''PhoneService'' \<mapsto>
          VInt (if s \<in> {''yes'', ''yeS'', ''yEs'', ''yES'', ''Yes'', ''YeS'', ''YEs'', ''YES''}
                then 1 else 0))]"
    unfolding py_lower_yes [symmetric] by (rule MapPhoneService_string)
next
  assume "element ''PhoneService'' \<in> {None, Some VNone, Some (VFloat NaN)}"
  then have f: "FillPhoneService_process element = Inr [element(''PhoneService'' \<mapsto> VStr ''No'')]"
    by (rule FillPhoneService_missing)
  have "MapPhoneService_process (element(''PhoneService'' \<mapsto> VStr ''No'')) =
          Inr [element(''PhoneService'' \<mapsto> VInt 0)]"
    by (simp add: MapPhoneService_string [of _ "''No''"] py_lower_No)
  with f show "apply_stage (FillPhoneService_process element) MapPhoneService_process =
        Inr [element(''PhoneService'' \<mapsto> VInt 0)]"
    by (simp add: apply_stage_def)
next
  assume a: "element ''PhoneService'' \<in> {None, Some VNone, Some (VFloat NaN)}
       \<and> apply_stage (apply_stage (FillPhoneService_process element)
            (FillTenureWithMean_process tenure_mean)) MapPhoneService_process = Inr outs"
  let ?e = "element(''PhoneService'' \<mapsto> VStr ''No'')"
  from a have f: "FillPhoneService_process element = Inr [?e]"
    by (simp add: FillPhoneService_missing)
  from a obtain ts where
    t: "apply_stage (FillPhoneService_process element) (FillTenureWithMean_process tenure_mean) = Inr ts"
    and m: "ParDo MapPhoneService_process ts = Inr outs"
    by (cases "apply_stage (FillPhoneService_process element) (FillTenureWithMean_process tenure_mean)")
      (auto simp: apply_stage_def)
  from t f have "FillTenureWithMean_process tenure_mean ?e = Inr ts"
    by (auto simp: apply_stage_def split: sum.splits)
  from FillTenureWithMean_keeps_PhoneService [OF this] obtain z where
    z: "ts = [z]" "z ''PhoneService'' = Some (VStr ''No'')" by auto
  from MapPhoneService_string [of z "''No''", OF z(2)] have
    "MapPhoneService_process z = Inr [z(''PhoneService'' \<mapsto> VInt 0)]"
    by (simp add: py_lower_No)
  with m z(1) have "outs = [z(''PhoneService'' \<mapsto> VInt 0)]" by simp
  then show "\<exists>out. outs = [out] \<and> out ''PhoneService'' = Some (VInt 0)" by simp
qed

theorem PhoneService_imputed_then_encoded_witness:
  "FillPhoneService_process [''tenure'' \<mapsto> VStr ''3''] =
     Inr [[''tenure'' \<mapsto> VStr ''3'', ''PhoneService'' \<mapsto> VStr ''No'']]
   \<and> MapPhoneService_process [''PhoneService'' \<mapsto> VStr ''YeS''] =
     Inr [[''PhoneService'' \<mapsto> VInt 1]]
   \<and> MapPhoneService_process [''PhoneService'' \<mapsto> VStr ''yes please''] =
     Inr [[''PhoneService'' \<mapsto> VInt 0]]
   \<and> apply_stage (FillPhoneService_process [''PhoneService'' \<mapsto> VNone]) MapPhoneService_process =
     Inr [[''PhoneService'' \<mapsto> VInt 0]]
   \<and> apply_stage (apply_stage (FillPhoneService_process [''tenure'' \<mapsto> VStr ''3''])
        (FillTenureWithMean_process (Finite False 32))) MapPhoneService_process =
     Inr [[''tenure'' \<mapsto> VFloat (Finite False 3), ''PhoneService'' \<mapsto> VInt 0]]"
proof -
  let ?a = "[''tenure'' \<mapsto> VStr ''3'']"
  let ?m = "Finite False 32"
  have a: "FillPhoneService_process ?a = Inr [?a(''PhoneService'' \<mapsto> VStr ''No'')]"
    using PhoneService_imputed_then_encoded [of ?a "[]" ?m "[]", THEN conjunct1] by simp
  have b: "MapPhoneService_process [''PhoneService'' \<mapsto> VStr ''YeS''] =
     Inr [[''PhoneService'' \<mapsto> VInt 1]]"
    using PhoneService_imputed_then_encoded [of "[''PhoneService'' \<mapsto> VStr ''YeS'']" "''YeS''" ?m "[]",
        THEN conjunct2, THEN conjunct1]
    by simp
  have c: "MapPhoneService_process [''PhoneService'' \<mapsto> VStr ''yes please''] =
     Inr [[''PhoneService'' \<mapsto> VInt 0]]"
    using PhoneService_imputed_then_encoded
      [of "[''PhoneService'' \<mapsto> VStr ''yes please'']" "''yes please''" ?m "[]",
        THEN conjunct2, THEN conjunct1]
    by simp
  have d: "apply_stage (FillPhoneService_process [''PhoneService'' \<mapsto> VNone]) MapPhoneService_process =
     Inr [[''PhoneService'' \<mapsto> VInt 0]]"
    using PhoneService_imputed_then_encoded [of "[''PhoneService'' \<mapsto> VNone]" "[]" ?m "[]",
        THEN conjunct2, THEN conjunct2, THEN conjunct1]
    by simp
  have p: "float_of_string ''3'' = Some (Finite False 3)" by code_simp
  have t: "FillTenureWithMean_process ?m (?a(''PhoneService'' \<mapsto> VStr ''No'')) =
     Inr [[''tenure'' \<mapsto> VFloat (Finite False 3), ''PhoneService'' \<mapsto> VStr ''No'']]"
    by (simp add: FillTenureWithMean_process_def dict_get_def dict_item_def p fun_upd_twist)
  have e: "apply_stage (apply_stage (FillPhoneService_process ?a)
        (FillTenureWithMean_process ?m)) MapPhoneService_process =
     Inr [[''tenure'' \<mapsto> VFloat (Finite False 3), ''PhoneService'' \<mapsto> VInt 0]]"
  proof -
    let ?outs = "[[''tenure'' \<mapsto> VFloat (Finite False 3), ''PhoneService'' \<mapsto> VInt 0]]"
    have r: "apply_stage (apply_stage (FillPhoneService_process ?a)
        (FillTenureWithMean_process ?m)) MapPhoneService_process = Inr ?outs"
      by (simp add: a apply_stage_def t MapPhoneService_string [of _ "''No''"] py_lower_No)
    from PhoneService_imputed_then_encoded [of ?a "[]" ?m ?outs, THEN conjunct2, THEN conjunct2,
        THEN conjunct2] r show ?thesis by simp
  qed
  from a b c d e show ?thesis by simp
qed

subsection \<open>Empty input and missing leading column\<close>

lemma py_strip_blank_iff: "py_strip l = [] \<longleftrightarrow> (\<forall>c \<in> set l. py_isspace c)"
proof
  assume "\<forall>c \<in> set l. py_isspace c"
  then have d: "dropWhile py_isspace l = []" by (simp add: dropWhile_eq_Nil_conv)
  show "py_strip l = []" unfolding py_strip_def d by simp
next
  assume a: "py_strip l = []"
  show "\<forall>c \<in> set l. py_isspace c"
  proof (cases "dropWhile py_isspace l")
    case Nil
    then show ?thesis by (simp add: dropWhile_eq_Nil_conv)
  next
    case (Cons x xs)
    then have "\<not> py_isspace x" by (metis hd_dropWhile list.sel(1) list.distinct(1))
    moreover from a have "\<forall>c \<in> set (rev (dropWhile py_isspace l)). py_isspace c"
      by (simp add: py_strip_def dropWhile_eq_Nil_conv)
    ultimately show ?thesis using Cons by simp
  qed
qed

lemma no_data_line_iff: "no_data_line ls \<longleftrightarrow> (\<forall>l \<in> set ls. \<forall>c \<in> set l. py_isspace c)"
  by (induction ls) (simp_all add: py_strip_blank_iff)

lemma is_csv_empty_iff:
  "is_csv_empty content \<longleftrightarrow> (\<forall>l \<in> set (drop 1 (open_read content)). \<forall>c \<in> set l. py_isspace c)"
  by (simp add: is_csv_empty_def no_data_line_iff)

text \<open>
  C9. For every input file that is empty or has only blank lines after its first line,
  run_pipeline prints the one diagnostic, writes no output file and returns False; the
  configuration, the reference mean and the transform chain play no part.
\<close>

theorem run_pipeline_header_only:
  assumes "\<forall>l \<in> set (drop 1 (open_read content)). \<forall>c \<in> set l. py_isspace c"
  shows "run_pipeline float_repr cfg tenure_mean input_file content =
           \<lparr>printed = [input_file @ '' is empty or only contains a header.''],
            output_file = None, outcome = Inr False\<rparr>"
  using assms by (simp add: run_pipeline_def is_csv_empty_iff)

theorem run_pipeline_header_only_witness:
  "run_pipeline (\<lambda>x. []) example_config (Finite False 32) ''input.csv'' [] =
     \<lparr>printed = [''input.csv is empty or only contains a header.''],
      output_file = None, outcome = Inr False\<rparr>
   \<and> run_pipeline (\<lambda>x. []) example_config (Finite False 32) ''input.csv''
       ''idx,customerID,tenure,PhoneService,Contract,TotalCharges\<newline>'' =
     \<lparr>printed = [''input.csv is empty or only contains a header.''],
      output_file = None, outcome = Inr False\<rparr>
   \<and> run_pipeline (\<lambda>x. []) example_config (Finite False 32) ''input.csv''
       ''idx,customerID,tenure,PhoneService,Contract,TotalCharges\<newline>  \<newline>\<newline>'' =
     \<lparr>printed = [''input.csv is empty or only contains a header.''],
      output_file = None, outcome = Inr False\<rparr>"
proof -
  let ?h = "''idx,customerID,tenure,PhoneService,Contract,TotalCharges\<newline>''"
  let ?b = "''idx,customerID,tenure,PhoneService,Contract,TotalCharges\<newline>  \<newline>\<newline>''"
  have h0: "\<forall>l \<in> set (drop 1 (open_read [])). \<forall>c \<in> set l. py_isspace c"
    by code_simp
  have h1: "\<forall>l \<in> set (drop 1 (open_read ?h)). \<forall>c \<in> set l. py_isspace c"
    by code_simp
  have h2: "\<forall>l \<in> set (drop 1 (open_read ?b)). \<forall>c \<in> set l. py_isspace c"
    by code_simp
  from run_pipeline_header_only [OF h0, of "\<lambda>x. []" example_config "Finite False 32" "''input.csv''"]
    run_pipeline_header_only [OF h1, of "\<lambda>x. []" example_config "Finite False 32" "''input.csv''"]
    run_pipeline_header_only [OF h2, of "\<lambda>x. []" example_config "Finite False 32" "''input.csv''"]
  show ?thesis by simp
qed

text \<open>
  C10. For every input file that has a non-blank line after its first line and whose
  header (the first line without surrounding whitespace), split at commas, does not
  contain the configured leading column name, run_pipeline raises the ValueError of
  find_leading_column_index: it returns no boolean, and no row is read and no output
  written.
\<close>

theorem run_pipeline_missing_leading_column:
  assumes "\<exists>l \<in> set (drop 1 (open_read content)). \<exists>c \<in> set l. \<not> py_isspace c"
    and "LEADING_COLUMN cfg \<notin> set (py_split CHR '','' (py_strip (readline (open_read content))))"
  shows "run_pipeline float_repr cfg tenure_mean input_file content =
           \<lparr>printed = [input_file @ '' contains data.''], output_file = None,
            outcome = Inl (ValueError (quoted (LEADING_COLUMN cfg) @ '' column not found in the header.''))\<rparr>"
proof -
  from assms(1) have "\<not> is_csv_empty content" by (auto simp: is_csv_empty_iff)
  moreover from assms(2) have
    "find_leading_column_index (py_strip (readline (open_read content))) (LEADING_COLUMN cfg) =
       Inl (ValueError (quoted (LEADING_COLUMN cfg) @ '' column not found in the header.''))"
    by (simp add: find_leading_column_index_def)
  ultimately show ?thesis by (simp add: run_pipeline_def)
qed

theorem run_pipeline_missing_leading_column_witness:
  "run_pipeline (\<lambda>x. []) example_config (Finite False 32) ''input.csv''
       ''idx,customer,tenure,PhoneService,Contract,TotalCharges\<newline>0,c1,5,Yes,One year,10\<newline>'' =
     \<lparr>printed = [''input.csv contains data.''], output_file = None,
      outcome = Inl (ValueError (quoted ''customerID'' @ '' column not found in the header.''))\<rparr>"
proof -
  let ?f = "''idx,customer,tenure,PhoneService,Contract,TotalCharges\<newline>0,c1,5,Yes,One year,10\<newline>''"
  have k: "LEADING_COLUMN example_config = ''customerID''"
    by (simp add: example_config_def)
  have h1: "\<exists>l \<in> set (drop 1 (open_read ?f)). \<exists>c \<in> set l. \<not> py_isspace c"
    by code_simp
  have h2: "LEADING_COLUMN example_config \<notin> set (py_split CHR '','' (py_strip (readline (open_read ?f))))"
    by code_simp
  from run_pipeline_missing_leading_column [OF h1 h2, of "\<lambda>x. []" "Finite False 32" "''input.csv''"]
  show ?thesis by (simp add: k)
qed

end
